theory Spec2Isabelle
  imports Main
begin

text \<open>
  A model of the license server of \<open>backend/app.py\<close> and \<open>backend/models.py\<close>: the tables,
  the JWT decorator, and the handlers that activate, validate, create and revoke licenses.
  A handler is a function from its request, its clock readings and the store to its response
  and the new store. The properties of the specification follow the model: activation twice,
  status transitions, lazy expiry, binding conflicts, token validity, revocation, creation,
  the audit entry of an activation, and the remaining days a validation reports.
\<close>

section \<open>Time\<close>

text \<open>
  Python's \<open>datetime\<close> has microsecond resolution and ranges from 0001-01-01T00:00:00 to
  9999-12-31T23:59:59.999999. A \<open>datetime\<close> is modelled as the number of microseconds since
  the lower end of that range, a \<open>timedelta\<close> as a number of microseconds. Every call of
  \<open>datetime.utcnow()\<close> in the source is a separate reading of the clock; each handler
  takes the readings it makes as a record, one field per call site.
\<close>

type_synonym datetime = int
type_synonym timedelta = int

definition us_per_second :: int where
  "us_per_second = 1000000"

definition us_per_day :: int where
  "us_per_day = 86400000000"

text \<open>\<open>datetime.max\<close>: the last microsecond of day 3652059 of the proleptic calendar.\<close>

definition datetime_max :: datetime where
  "datetime_max = 3652059 * 86400000000 - 1"

text \<open>\<open>timedelta(days=n)\<close> raises OverflowError beyond 999999999 days.\<close>

definition timedelta_days :: "int \<Rightarrow> timedelta option" where
  "timedelta_days n = (if \<bar>n\<bar> \<le> 999999999 then Some (n * us_per_day) else None)"

text \<open>\<open>datetime + timedelta\<close> raises OverflowError when the sum leaves the range.\<close>

definition dt_add :: "datetime \<Rightarrow> timedelta \<Rightarrow> datetime option" where
  "dt_add t d = (if 0 \<le> t + d \<and> t + d \<le> datetime_max then Some (t + d) else None)"

text \<open>\<open>timedelta.days\<close>: the normalised day count, rounded towards minus infinity.\<close>

definition td_days :: "timedelta \<Rightarrow> int" where
  "td_days d = d div us_per_day"

text \<open>
  \<open>calendar.timegm(t.utctimetuple())\<close>: whole seconds since 1970-01-01, the microseconds
  dropped. This is what the JWT library stores for a \<open>datetime\<close> given as \<open>exp\<close>.
\<close>

definition timegm :: "datetime \<Rightarrow> int" where
  "timegm t = t div us_per_second - 62135596800"

text \<open>\<open>app.config['JWT_ACCESS_TOKEN_EXPIRES'] = timedelta(hours=24)\<close>\<close>

definition JWT_ACCESS_TOKEN_EXPIRES :: timedelta where
  "JWT_ACCESS_TOKEN_EXPIRES = 24 * 3600 * us_per_second"

section \<open>Tables (models.py)\<close>

text \<open>
  One record per model class, one field per column; a nullable column is an option.
  \<open>AuditLog.device_id\<close> is declared an integer foreign key, but the application hands it
  a string. What the column then holds is decided by the database, so the field holds a
  value tagged with its type: an integer or a text.
\<close>

datatype col_value = IntVal int | StrVal string

record license =
  lic_id :: int
  lic_key :: string
  lic_status :: string
  lic_expires_at :: "datetime option"
  lic_created_at :: "datetime option"
  lic_revoked_at :: "datetime option"
  lic_created_by :: "int option"
  lic_revoked_by :: "int option"

record device =
  dev_id :: int
  dev_device_id :: string
  dev_device_info :: "string option"
  dev_fcm_token :: "string option"
  dev_registered_at :: "datetime option"
  dev_last_validated :: "datetime option"
  dev_is_active :: bool
  dev_license_id :: int

record audit_log =
  al_id :: int
  al_action :: string
  al_details :: "string option"
  al_ip_address :: "string option"
  al_user_agent :: "string option"
  al_created_at :: "datetime option"
  al_license_id :: "int option"
  al_device_id :: "col_value option"
  al_admin_user_id :: "int option"

text \<open>
  The record store: each table is the list of its rows in insertion order. No handler
  deletes a row. The admin table is read only through \<open>current_user.id\<close>, which the admin
  handlers take as an argument.
\<close>

record store =
  licenses :: "license list"
  devices :: "device list"
  audit_logs :: "audit_log list"

definition empty_store :: store where
  "empty_store = \<lparr>licenses = [], devices = [], audit_logs = []\<rparr>"

subsection \<open>Queries and updates\<close>

text \<open>\<open>License.query.filter_by(key=k).first()\<close>\<close>

definition license_by_key :: "store \<Rightarrow> string \<Rightarrow> license option" where
  "license_by_key s k = List.find (\<lambda>r. lic_key r = k) (licenses s)"

text \<open>\<open>License.query.get(i)\<close>\<close>

definition license_get :: "store \<Rightarrow> int \<Rightarrow> license option" where
  "license_get s i = List.find (\<lambda>r. lic_id r = i) (licenses s)"

text \<open>\<open>Device.query.filter_by(device_id=d).first()\<close>\<close>

definition device_by_device_id :: "store \<Rightarrow> string \<Rightarrow> device option" where
  "device_by_device_id s d = List.find (\<lambda>r. dev_device_id r = d) (devices s)"

text \<open>
  Assigning to an attribute of a loaded row and committing rewrites that row: the first
  row the query's predicate selects.
\<close>

fun update_first :: "('a \<Rightarrow> bool) \<Rightarrow> ('a \<Rightarrow> 'a) \<Rightarrow> 'a list \<Rightarrow> 'a list" where
  "update_first P f [] = []"
| "update_first P f (x # xs) = (if P x then f x # xs else x # update_first P f xs)"

text \<open>The primary key of an inserted row: one more than the largest in the table.\<close>

definition next_id :: "int list \<Rightarrow> int" where
  "next_id ids = foldr max ids 0 + 1"

text \<open>\<open>x and x < now\<close> for a nullable timestamp \<open>x\<close>: the clock is compared only when set.\<close>

definition is_past :: "datetime option \<Rightarrow> datetime \<Rightarrow> bool" where
  "is_past x now = (case x of None \<Rightarrow> False | Some e \<Rightarrow> e < now)"

section \<open>Tokens\<close>

text \<open>
  The JWT library is outside the repository; it is modelled symbolically. A \<open>jws\<close> is a
  well-formed compact token: its payload and the key its HS256 signature was made with.
  The payload holds the three claims \<open>activate_license\<close> writes; a claim may be absent in
  a token somebody else has made.
\<close>

record jwt_payload =
  jp_user_id :: "string option"
  jp_license_id :: "int option"
  jp_exp :: "int option"

datatype jws = Jws jwt_payload string

text \<open>
  The text of an Authorization header: some characters, then possibly a compact token.
  A compact token holds no space, so \<open>startswith('Bearer ')\<close> is decided by the characters
  in front of it.
\<close>

datatype header_text = HeaderText string "jws option"

fun ht_empty :: "header_text \<Rightarrow> bool" where
  "ht_empty (HeaderText p t) = (p = [] \<and> t = None)"

fun ht_startswith_bearer :: "header_text \<Rightarrow> bool" where
  "ht_startswith_bearer (HeaderText p t) = (take 7 p = ''Bearer '')"

fun ht_drop7 :: "header_text \<Rightarrow> header_text" where
  "ht_drop7 (HeaderText p t) = HeaderText (drop 7 p) t"

datatype jwt_error = ExpiredSignatureError | InvalidTokenError

text \<open>
  The configuration: the signing secret, and how the installed JWT library compares the
  \<open>exp\<close> claim with the current whole second. Releases of the library differ: some
  reject a token from the second \<open>exp\<close> on (\<open>exp \<le> now\<close>), older ones only after it
  (\<open>exp < now\<close>). The database is configured too (\<open>SQLALCHEMY_DATABASE_URI\<close>); of it
  the model needs what an INTEGER column holds after a text has been stored in it.
\<close>

record config =
  cfg_jwt_secret :: string
  cfg_exp_inclusive :: bool
  cfg_integer_column :: "string \<Rightarrow> col_value"

text \<open>
  \<open>jwt.decode(token, key, algorithms=['HS256'])\<close>: the text must be exactly one compact
  token, signed with the key; then the \<open>exp\<close> claim, if present, is checked.
\<close>

definition jwt_decode :: "config \<Rightarrow> header_text \<Rightarrow> datetime \<Rightarrow> jwt_error + jwt_payload" where
  "jwt_decode cfg tok now =
     (case tok of
        HeaderText p None \<Rightarrow> Inl InvalidTokenError
      | HeaderText p (Some (Jws payload k)) \<Rightarrow>
          if p \<noteq> [] then Inl InvalidTokenError
          else if k \<noteq> cfg_jwt_secret cfg then Inl InvalidTokenError
          else (case jp_exp payload of
                  None \<Rightarrow> Inr payload
                | Some e \<Rightarrow>
                    if (if cfg_exp_inclusive cfg then e \<le> timegm now else e < timegm now)
                    then Inl ExpiredSignatureError
                    else Inr payload))"

section \<open>Responses\<close>

text \<open>A JSON error body with its HTTP status: the \<open>error\<close> text and the optional \<open>status\<close>.\<close>

datatype api_error = ApiError nat string "string option"

record activate_ok =
  ao_token :: jws
  ao_license_status :: string
  ao_expires_at :: "datetime option"

record validate_ok =
  vo_license_status :: string
  vo_expires_at :: "datetime option"
  vo_days_remaining :: "int option"

text \<open>An admin handler answers with a flashed message and its category.\<close>

datatype flash = Flash string string

definition internal_server_error :: api_error where
  "internal_server_error = ApiError 500 ''Internal server error'' None"

section \<open>The JWT decorator (app.py, jwt_required)\<close>

definition jwt_required :: "config \<Rightarrow> header_text option \<Rightarrow> datetime \<Rightarrow> api_error + string" where
  "jwt_required cfg authorization now =
     (case authorization of
        None \<Rightarrow> Inl (ApiError 401 ''Token is missing'' None)
      | Some token \<Rightarrow>
          if ht_empty token then Inl (ApiError 401 ''Token is missing'' None)
          else
            (case jwt_decode cfg (if ht_startswith_bearer token then ht_drop7 token else token) now of
               Inl ExpiredSignatureError \<Rightarrow> Inl (ApiError 401 ''Token has expired'' None)
             | Inl InvalidTokenError \<Rightarrow> Inl (ApiError 401 ''Token is invalid'' None)
             | Inr data \<Rightarrow>
                 (case jp_user_id data of
                    None \<Rightarrow> Inl internal_server_error
                  | Some current_user_id \<Rightarrow> Inr current_user_id)))"

section \<open>Activation (app.py, activate_license)\<close>

text \<open>
  The JSON body, with the strings the handler's docstring expects; \<open>None\<close> is an absent
  field. An empty object has no fields.
\<close>

record activate_request =
  ar_license_key :: "string option"
  ar_device_id :: "string option"
  ar_device_info :: "string option"

text \<open>
  The clock readings of one call: the expiry check, \<open>registered_at\<close>, the default of
  \<open>AuditLog.created_at\<close>, and the reading the token's \<open>exp\<close> is computed from.
\<close>

record activate_clock =
  ac_check :: datetime
  ac_registered :: datetime
  ac_audit :: datetime
  ac_token :: datetime

text \<open>The \<open>jwt.encode\<close> call both successful branches make.\<close>

definition issue_token :: "config \<Rightarrow> string \<Rightarrow> int \<Rightarrow> datetime \<Rightarrow> jws option" where
  "issue_token cfg device_id license_id now =
     (case dt_add now JWT_ACCESS_TOKEN_EXPIRES of
        None \<Rightarrow> None
      | Some e \<Rightarrow>
          Some (Jws \<lparr>jp_user_id = Some device_id, jp_license_id = Some license_id,
                     jp_exp = Some (timegm e)\<rparr> (cfg_jwt_secret cfg)))"

definition set_expired :: "license \<Rightarrow> license" where
  "set_expired r = r\<lparr>lic_status := ''expired''\<rparr>"

definition new_device :: "store \<Rightarrow> string \<Rightarrow> int \<Rightarrow> string \<Rightarrow> datetime \<Rightarrow> device" where
  "new_device s device_id license_id device_info now =
     \<lparr>dev_id = next_id (map dev_id (devices s)), dev_device_id = device_id,
      dev_device_info = Some device_info, dev_fcm_token = None,
      dev_registered_at = Some now, dev_last_validated = None, dev_is_active = True,
      dev_license_id = license_id\<rparr>"

text \<open>
  The audit row of an activation. The handler passes the caller's \<open>device_id\<close> string for
  the INTEGER column \<open>device_id\<close>; the row holds what the database makes of it.
\<close>

definition activation_log ::
  "config \<Rightarrow> store \<Rightarrow> string \<Rightarrow> int \<Rightarrow> string \<Rightarrow> datetime \<Rightarrow> audit_log" where
  "activation_log cfg s device_id license_id license_key now =
     \<lparr>al_id = next_id (map al_id (audit_logs s)), al_action = ''license_activated'',
      al_details = Some (''Device '' @ device_id @ '' activated license '' @ license_key),
      al_ip_address = None, al_user_agent = None, al_created_at = Some now,
      al_license_id = Some license_id, al_device_id = Some (cfg_integer_column cfg device_id),
      al_admin_user_id = None\<rparr>"

definition activate_license ::
  "config \<Rightarrow> activate_request \<Rightarrow> activate_clock \<Rightarrow> store \<Rightarrow> (api_error + activate_ok) \<times> store" where
  "activate_license cfg data clk s =
     (case ar_license_key data of
        None \<Rightarrow> (Inl (ApiError 400 ''Missing required fields'' None), s)
      | Some license_key \<Rightarrow>
     (case ar_device_id data of
        None \<Rightarrow> (Inl (ApiError 400 ''Missing required fields'' None), s)
      | Some device_id \<Rightarrow>
     (case license_by_key s license_key of
        None \<Rightarrow> (Inl (ApiError 404 ''Invalid license key'' None), s)
      | Some license_obj \<Rightarrow>
          if lic_status license_obj \<noteq> ''active''
          then (Inl (ApiError 400 ''License is not active'' None), s)
          else if is_past (lic_expires_at license_obj) (ac_check clk)
          then (Inl (ApiError 400 ''License has expired'' None),
                s\<lparr>licenses := update_first (\<lambda>r. lic_key r = license_key) set_expired (licenses s)\<rparr>)
          else
            (case device_by_device_id s device_id of
               Some existing_device \<Rightarrow>
                 if dev_license_id existing_device = lic_id license_obj
                 then (case issue_token cfg device_id (lic_id license_obj) (ac_token clk) of
                         None \<Rightarrow> (Inl internal_server_error, s)
                       | Some token \<Rightarrow>
                           (Inr \<lparr>ao_token = token, ao_license_status = lic_status license_obj,
                                 ao_expires_at = lic_expires_at license_obj\<rparr>, s))
                 else (Inl (ApiError 400 ''Device already registered with different license'' None), s)
             | None \<Rightarrow>
                 (let device_info = (case ar_device_info data of None \<Rightarrow> [] | Some i \<Rightarrow> i);
                      s' = s\<lparr>devices := devices s @
                               [new_device s device_id (lic_id license_obj) device_info (ac_registered clk)],
                             audit_logs := audit_logs s @
                               [activation_log cfg s device_id (lic_id license_obj) license_key (ac_audit clk)]\<rparr>
                  in (case issue_token cfg device_id (lic_id license_obj) (ac_token clk) of
                        None \<Rightarrow> (Inl internal_server_error, s')
                      | Some token \<Rightarrow>
                          (Inr \<lparr>ao_token = token, ao_license_status = lic_status license_obj,
                                ao_expires_at = lic_expires_at license_obj\<rparr>, s')))))))"

section \<open>Validation (app.py, validate_license)\<close>

text \<open>
  The clock readings of one call: the one the JWT library takes, the expiry check,
  \<open>last_validated\<close>, and the one \<open>days_remaining\<close> is computed from.
\<close>

record validate_clock =
  vc_jwt :: datetime
  vc_check :: datetime
  vc_validated :: datetime
  vc_days :: datetime

definition validate_license ::
  "string \<Rightarrow> validate_clock \<Rightarrow> store \<Rightarrow> (api_error + validate_ok) \<times> store" where
  "validate_license user_id clk s =
     (case device_by_device_id s user_id of
        None \<Rightarrow> (Inl (ApiError 404 ''Device not found'' None), s)
      | Some device \<Rightarrow>
     (case license_get s (dev_license_id device) of
        None \<Rightarrow> (Inl (ApiError 404 ''License not found'' None), s)
      | Some license_obj \<Rightarrow>
          if lic_status license_obj \<noteq> ''active''
          then (Inl (ApiError 400 ''License is not active'' (Some (lic_status license_obj))), s)
          else if is_past (lic_expires_at license_obj) (vc_check clk)
          then (Inl (ApiError 400 ''License has expired'' (Some ''expired'')),
                s\<lparr>licenses := update_first (\<lambda>r. lic_id r = dev_license_id device) set_expired
                                (licenses s)\<rparr>)
          else
            (Inr \<lparr>vo_license_status = lic_status license_obj,
                  vo_expires_at = lic_expires_at license_obj,
                  vo_days_remaining =
                    (case lic_expires_at license_obj of
                       None \<Rightarrow> None
                     | Some e \<Rightarrow> Some (td_days (e - vc_days clk)))\<rparr>,
             s\<lparr>devices := update_first (\<lambda>r. dev_device_id r = user_id)
                            (\<lambda>r. r\<lparr>dev_last_validated := Some (vc_validated clk)\<rparr>) (devices s)\<rparr>)))"

text \<open>The route: the decorator first, then the handler with the token's \<open>user_id\<close>.\<close>

definition validate_route ::
  "config \<Rightarrow> header_text option \<Rightarrow> validate_clock \<Rightarrow> store \<Rightarrow> (api_error + validate_ok) \<times> store" where
  "validate_route cfg authorization clk s =
     (case jwt_required cfg authorization (vc_jwt clk) of
        Inl e \<Rightarrow> (Inl e, s)
      | Inr user_id \<Rightarrow> validate_license user_id clk s)"

section \<open>Administration (app.py, create_license and revoke_license)\<close>

text \<open>
  The \<open>duration_days\<close> form field as \<open>int(request.form.get('duration_days', 7))\<close> reads it:
  absent, a text \<open>int\<close> rejects with ValueError, or a text \<open>int\<close> turns into a number.
\<close>

datatype form_int = Absent | NotAnInt | IntText int

record create_form =
  cf_key :: "string option"
  cf_duration_days :: form_int

text \<open>The readings: the one \<open>expires_at\<close> is computed from, and the default of \<open>created_at\<close>.\<close>

record create_clock =
  cc_expires :: datetime
  cc_created :: datetime

definition new_license :: "store \<Rightarrow> string \<Rightarrow> datetime \<Rightarrow> int \<Rightarrow> datetime \<Rightarrow> license" where
  "new_license s key expires_at admin_id now =
     \<lparr>lic_id = next_id (map lic_id (licenses s)), lic_key = key, lic_status = ''active'',
      lic_expires_at = Some expires_at, lic_created_at = Some now, lic_revoked_at = None,
      lic_created_by = Some admin_id, lic_revoked_by = None\<rparr>"

text \<open>
  Every exception inside the handler's \<open>try\<close> ends in the same flash; nothing has been
  added to the session before the places that can raise.
\<close>

definition create_license :: "create_form \<Rightarrow> int \<Rightarrow> create_clock \<Rightarrow> store \<Rightarrow> flash \<times> store" where
  "create_license form current_user_id clk s =
     (case (case cf_duration_days form of
              Absent \<Rightarrow> Some 7 | NotAnInt \<Rightarrow> None | IntText n \<Rightarrow> Some n) of
        None \<Rightarrow> (Flash ''Error creating license'' ''error'', s)
      | Some duration_days \<Rightarrow>
          (case cf_key form of
             None \<Rightarrow> (Flash ''License key is required'' ''error'', s)
           | Some key \<Rightarrow>
               if key = [] then (Flash ''License key is required'' ''error'', s)
               else if license_by_key s key \<noteq> None
               then (Flash ''License key already exists'' ''error'', s)
               else
                 (case timedelta_days duration_days of
                    None \<Rightarrow> (Flash ''Error creating license'' ''error'', s)
                  | Some delta \<Rightarrow>
                      (case dt_add (cc_expires clk) delta of
                         None \<Rightarrow> (Flash ''Error creating license'' ''error'', s)
                       | Some expires_at \<Rightarrow>
                           (Flash ''License created successfully'' ''success'',
                            s\<lparr>licenses := licenses s @
                                [new_license s key expires_at current_user_id (cc_created clk)]\<rparr>)))))"

text \<open>The readings: \<open>revoked_at\<close>, and the default of \<open>AuditLog.created_at\<close>.\<close>

record revoke_clock =
  rc_revoked :: datetime
  rc_audit :: datetime

definition set_revoked :: "datetime \<Rightarrow> int \<Rightarrow> license \<Rightarrow> license" where
  "set_revoked now admin_id r =
     r\<lparr>lic_status := ''revoked'', lic_revoked_at := Some now, lic_revoked_by := Some admin_id\<rparr>"

definition revocation_log :: "store \<Rightarrow> int \<Rightarrow> string \<Rightarrow> datetime \<Rightarrow> audit_log" where
  "revocation_log s license_id license_key now =
     \<lparr>al_id = next_id (map al_id (audit_logs s)), al_action = ''license_revoked'',
      al_details = Some (''License '' @ license_key @ '' revoked by admin''),
      al_ip_address = None, al_user_agent = None, al_created_at = Some now,
      al_license_id = Some license_id, al_device_id = None, al_admin_user_id = None\<rparr>"

text \<open>
  \<open>get_or_404\<close> raises inside the \<open>try\<close>, so an unknown id ends in the error flash.
\<close>

definition revoke_license :: "int \<Rightarrow> int \<Rightarrow> revoke_clock \<Rightarrow> store \<Rightarrow> flash \<times> store" where
  "revoke_license license_id current_user_id clk s =
     (case license_get s license_id of
        None \<Rightarrow> (Flash ''Error revoking license'' ''error'', s)
      | Some license_obj \<Rightarrow>
          (Flash ''License revoked successfully'' ''success'',
           s\<lparr>licenses := update_first (\<lambda>r. lic_id r = license_id)
                            (set_revoked (rc_revoked clk) current_user_id) (licenses s),
             audit_logs := audit_logs s @
                             [revocation_log s license_id (lic_key license_obj) (rc_audit clk)]\<rparr>))"

section \<open>Sequences of requests\<close>

datatype request =
    Activate activate_request activate_clock
  | Validate "header_text option" validate_clock
  | Create create_form int create_clock
  | Revoke int int revoke_clock

fun step :: "config \<Rightarrow> store \<Rightarrow> request \<Rightarrow> store" where
  "step cfg s (Activate data clk) = snd (activate_license cfg data clk s)"
| "step cfg s (Validate authorization clk) = snd (validate_route cfg authorization clk s)"
| "step cfg s (Create form admin clk) = snd (create_license form admin clk s)"
| "step cfg s (Revoke license_id admin clk) = snd (revoke_license license_id admin clk s)"

definition run :: "config \<Rightarrow> store \<Rightarrow> request list \<Rightarrow> store" where
  "run cfg s reqs = foldl (step cfg) s reqs"

section \<open>The two SQLAlchemy objects (models.py line 9, app.py line 32)\<close>

text \<open>
  The handlers above are modelled as they are written: the store a handler returns holds
  the rows as the handler leaves its objects, the rows it loaded and assigned to and the rows
  it added, as if its \<open>db.session.commit()\<close> stored them all.

  As the two files are wired, that is not one unit of work. \<open>models.py\<close> builds a
  \<open>SQLAlchemy()\<close> object of its own; the model classes belong to it, and \<open>License.query\<close>
  and \<open>Device.query\<close> load their rows into its session. \<open>db.session\<close> in \<open>app.py\<close> is the
  session of the object made with the application, although the comment above the import
  of the models reads "Import models after db initialization". A row given to
  \<open>db.session.add\<close> is stored by \<open>db.session.commit()\<close>. An assignment to an attribute of
  a loaded row stays in the session of \<open>models.py\<close>, which no handler commits: the
  database keeps the row as it was.
\<close>

text \<open>
  What the database holds after a handler has turned its rows into \<open>objects\<close>: the old rows
  unchanged, and the rows that were added.
\<close>

definition committed :: "store \<Rightarrow> store \<Rightarrow> store" where
  "committed database objects =
     \<lparr>licenses = licenses database @ drop (length (licenses database)) (licenses objects),
      devices = devices database @ drop (length (devices database)) (devices objects),
      audit_logs = audit_logs database @ drop (length (audit_logs database)) (audit_logs objects)\<rparr>"

definition activate_license_as_wired ::
  "config \<Rightarrow> activate_request \<Rightarrow> activate_clock \<Rightarrow> store \<Rightarrow> (api_error + activate_ok) \<times> store" where
  "activate_license_as_wired cfg data clk database =
     (case activate_license cfg data clk database of
        (response, objects) \<Rightarrow> (response, committed database objects))"

definition validate_license_as_wired ::
  "string \<Rightarrow> validate_clock \<Rightarrow> store \<Rightarrow> (api_error + validate_ok) \<times> store" where
  "validate_license_as_wired user_id clk database =
     (case validate_license user_id clk database of
        (response, objects) \<Rightarrow> (response, committed database objects))"

section \<open>How the tables may change\<close>

text \<open>
  The relations the handlers keep between the store before and after a request: rows stay
  where they are, a table only grows at its end, and a row changes only in the ways below.
\<close>

text \<open>
  The status of a license over any number of requests: unchanged, from active to expired,
  or to revoked.
\<close>

definition status_step :: "string \<Rightarrow> string \<Rightarrow> bool" where
  "status_step a b = (b = a \<or> (a = ''active'' \<and> b = ''expired'') \<or> b = ''revoked'')"

text \<open>A license row keeps its id, key and expiration; its status moves along \<open>T\<close>.\<close>

definition license_rel :: "(string \<Rightarrow> string \<Rightarrow> bool) \<Rightarrow> license \<Rightarrow> license \<Rightarrow> bool" where
  "license_rel T x y =
     (lic_id y = lic_id x \<and> lic_key y = lic_key x \<and> lic_expires_at y = lic_expires_at x \<and>
      T (lic_status x) (lic_status y))"

definition license_step :: "license \<Rightarrow> license \<Rightarrow> bool" where
  "license_step = license_rel status_step"

text \<open>The status changes one request of each kind may make to an existing license.\<close>

fun transition_of :: "request \<Rightarrow> string \<Rightarrow> string \<Rightarrow> bool" where
  "transition_of (Activate data clk) a b = (b = a \<or> (a = ''active'' \<and> b = ''expired''))"
| "transition_of (Validate authorization clk) a b = (b = a \<or> (a = ''active'' \<and> b = ''expired''))"
| "transition_of (Create form admin clk) a b = (b = a)"
| "transition_of (Revoke license_id admin clk) a b = (b = a \<or> b = ''revoked'')"

text \<open>A device row changes in \<open>last_validated\<close> only.\<close>

definition device_step :: "device \<Rightarrow> device \<Rightarrow> bool" where
  "device_step x y = (y = x\<lparr>dev_last_validated := dev_last_validated y\<rparr>)"

text \<open>A table after some requests: the old rows in their places, related by \<open>R\<close>, then new rows.\<close>

definition rows_evolve :: "('a \<Rightarrow> 'a \<Rightarrow> bool) \<Rightarrow> 'a list \<Rightarrow> 'a list \<Rightarrow> bool" where
  "rows_evolve R xs ys = (length xs \<le> length ys \<and> list_all2 R xs (take (length xs) ys))"

text \<open>The store after any number of requests; audit rows are never rewritten.\<close>

definition evolves :: "store \<Rightarrow> store \<Rightarrow> bool" where
  "evolves s s' =
     (rows_evolve license_step (licenses s) (licenses s') \<and>
      rows_evolve device_step (devices s) (devices s') \<and>
      rows_evolve (=) (audit_logs s) (audit_logs s'))"

text \<open>The store after the one request \<open>req\<close>.\<close>

definition evolves_by :: "request \<Rightarrow> store \<Rightarrow> store \<Rightarrow> bool" where
  "evolves_by req s s' =
     (rows_evolve (license_rel (transition_of req)) (licenses s) (licenses s') \<and>
      rows_evolve device_step (devices s) (devices s') \<and>
      rows_evolve (=) (audit_logs s) (audit_logs s'))"

section \<open>Sample data\<close>

text \<open>
  Concrete stores and requests on which the theorems below are instantiated. \<open>t0\<close> is
  2025-01-01T00:00:00; the sample clocks let a microsecond pass between two readings.
\<close>

definition t0 :: datetime where
  "t0 = 63871286400000000"

definition activate_at :: "datetime \<Rightarrow> activate_clock" where
  "activate_at t = \<lparr>ac_check = t, ac_registered = t + 1, ac_audit = t + 2, ac_token = t + 3\<rparr>"

definition validate_at :: "datetime \<Rightarrow> validate_clock" where
  "validate_at t = \<lparr>vc_jwt = t, vc_check = t + 1, vc_validated = t + 2, vc_days = t + 3\<rparr>"

definition create_at :: "datetime \<Rightarrow> create_clock" where
  "create_at t = \<lparr>cc_expires = t, cc_created = t + 1\<rparr>"


text \<open>
  A database that stores a text of one to eighteen decimal digits in an INTEGER column as
  the number it denotes and every other text as it is. SQLite, the default of \<open>app.py\<close>,
  does so with these texts of digits and with the other texts the samples use.
\<close>

definition digit_of :: "char \<Rightarrow> int option" where
  "digit_of c = map_of (zip ''0123456789'' [0, 1, 2, 3, 4, 5, 6, 7, 8, 9]) c"

fun decimal_value :: "string \<Rightarrow> int \<Rightarrow> int option" where
  "decimal_value [] n = Some n"
| "decimal_value (c # cs) n =
     (case digit_of c of None \<Rightarrow> None | Some d \<Rightarrow> decimal_value cs (10 * n + d))"

definition digits_as_integer :: "string \<Rightarrow> col_value" where
  "digits_as_integer txt =
     (if txt = [] \<or> 18 < length txt then StrVal txt
      else (case decimal_value txt 0 of None \<Rightarrow> StrVal txt | Some n \<Rightarrow> IntVal n))"

text \<open>Two configurations with the same secret, one for each comparison of \<open>exp\<close>.\<close>

definition sample_cfg :: config where
  "sample_cfg = \<lparr>cfg_jwt_secret = ''secret'', cfg_exp_inclusive = True,
     cfg_integer_column = digits_as_integer\<rparr>"

definition sample_cfg_strict :: config where
  "sample_cfg_strict = \<lparr>cfg_jwt_secret = ''secret'', cfg_exp_inclusive = False,
     cfg_integer_column = digits_as_integer\<rparr>"

text \<open>
  The licenses of the specification's scenario: \<open>KEY-A\<close> for seven days, \<open>KEY-B\<close> without
  expiration; first without devices, then with \<open>dev1\<close> bound to \<open>KEY-A\<close>.
\<close>

definition license_A :: license where
  "license_A = \<lparr>lic_id = 1, lic_key = ''KEY-A'', lic_status = ''active'',
     lic_expires_at = Some (t0 + 7 * us_per_day), lic_created_at = Some t0, lic_revoked_at = None,
     lic_created_by = Some 1, lic_revoked_by = None\<rparr>"

definition license_B :: license where
  "license_B = \<lparr>lic_id = 2, lic_key = ''KEY-B'', lic_status = ''active'',
     lic_expires_at = None, lic_created_at = Some t0, lic_revoked_at = None,
     lic_created_by = Some 1, lic_revoked_by = None\<rparr>"

definition store_AB :: store where
  "store_AB = \<lparr>licenses = [license_A, license_B], devices = [], audit_logs = []\<rparr>"

definition device_1 :: device where
  "device_1 = \<lparr>dev_id = 1, dev_device_id = ''dev1'', dev_device_info = Some [],
     dev_fcm_token = None, dev_registered_at = Some t0, dev_last_validated = None,
     dev_is_active = True, dev_license_id = 1\<rparr>"

definition store_bound :: store where
  "store_bound = \<lparr>licenses = [license_A, license_B], devices = [device_1], audit_logs = []\<rparr>"

text \<open>A license that expires at \<open>t0\<close>, with \<open>dev1\<close> bound to it, before and after the check.\<close>

definition license_old :: license where
  "license_old = \<lparr>lic_id = 1, lic_key = ''OLD'', lic_status = ''active'',
     lic_expires_at = Some t0, lic_created_at = Some (t0 - 7 * us_per_day), lic_revoked_at = None,
     lic_created_by = Some 1, lic_revoked_by = None\<rparr>"

definition store_old :: store where
  "store_old = \<lparr>licenses = [license_old, license_B], devices = [device_1], audit_logs = []\<rparr>"

definition store_old_expired :: store where
  "store_old_expired =
     \<lparr>licenses = [license_old\<lparr>lic_status := ''expired''\<rparr>, license_B], devices = [device_1],
      audit_logs = []\<rparr>"

text \<open>A validate call during which that license expires.\<close>

definition validate_across_expiry :: validate_clock where
  "validate_across_expiry = \<lparr>vc_jwt = t0 - 3, vc_check = t0 - 2, vc_validated = t0 - 1, vc_days = t0 + 1\<rparr>"







text \<open>
  A token as a client sends it, and two tokens for \<open>dev1\<close>: one issued at \<open>t0\<close>, one issued
  half a second later, whose \<open>exp\<close> is the same whole second.
\<close>

definition bearer :: "jws \<Rightarrow> header_text option" where
  "bearer tok = Some (HeaderText ''Bearer '' (Some tok))"


definition token_half :: jws where
  "token_half = Jws \<lparr>jp_user_id = Some ''dev1'', jp_license_id = Some 1,
     jp_exp = Some (timegm t0 + 86400)\<rparr> ''secret''"

section \<open>Lists, queries and updates\<close>

lemma find_append_None: "List.find P xs = None \<Longrightarrow> List.find P (xs @ ys) = List.find P ys"
  by (induction xs) auto

lemma find_Some_holds: "List.find P xs = Some x \<Longrightarrow> P x"
  by (induction xs) (auto split: if_splits)

lemma find_Some_mem: "List.find P xs = Some x \<Longrightarrow> x \<in> set xs"
  by (induction xs) (auto split: if_splits)

lemma length_update_first: "length (update_first P f xs) = length xs"
  by (induction xs) auto

lemma find_update_first:
  "List.find P xs = Some x \<Longrightarrow> P (f x) \<Longrightarrow> List.find P (update_first P f xs) = Some (f x)"
  by (induction xs) (auto split: if_splits)

lemma update_first_rel:
  "(\<And>z. R z z) \<Longrightarrow> (\<And>x. List.find P xs = Some x \<Longrightarrow> R x (f x)) \<Longrightarrow>
   list_all2 R xs (update_first P f xs)"
  by (induction xs) (auto simp: list_all2_refl)

lemma rows_evolve_refl: "(\<And>x. R x x) \<Longrightarrow> rows_evolve R xs xs"
  by (simp add: rows_evolve_def list_all2_refl)

lemma rows_evolve_append: "(\<And>x. R x x) \<Longrightarrow> rows_evolve R xs (xs @ ys)"
  by (simp add: rows_evolve_def list_all2_refl)

lemma rows_evolve_update_first:
  "(\<And>z. R z z) \<Longrightarrow> (\<And>x. List.find P xs = Some x \<Longrightarrow> R x (f x)) \<Longrightarrow>
   rows_evolve R xs (update_first P f xs)"
  by (simp add: rows_evolve_def length_update_first update_first_rel)


lemma rows_evolve_mono:
  "rows_evolve R xs ys \<Longrightarrow> (\<And>x y. R x y \<Longrightarrow> Q x y) \<Longrightarrow> rows_evolve Q xs ys"
  by (auto simp: rows_evolve_def elim: list_all2_mono)

lemma rows_evolve_trans:
  assumes tr: "\<And>x y z. R x y \<Longrightarrow> R y z \<Longrightarrow> R x z"
    and a: "rows_evolve R xs ys" and b: "rows_evolve R ys zs"
  shows "rows_evolve R xs zs"
proof -
  have len: "length xs \<le> length ys" "length ys \<le> length zs"
    using a b by (simp_all add: rows_evolve_def)
  have "list_all2 R ys (take (length ys) zs)"
    using b by (simp add: rows_evolve_def)
  then have "list_all2 R (take (length xs) ys) (take (length xs) (take (length ys) zs))"
    by (rule list_all2_takeI)
  moreover have "take (length xs) (take (length ys) zs) = take (length xs) zs"
    using len by (simp add: min_def)
  ultimately have "list_all2 R (take (length xs) ys) (take (length xs) zs)" by simp
  with a have "list_all2 R xs (take (length xs) zs)"
    unfolding rows_evolve_def using tr list_all2_trans[of R R R] by blast
  then show ?thesis using len by (simp add: rows_evolve_def)
qed

lemma find_rows_evolve:
  assumes "rows_evolve R xs ys" and "\<And>x y. R x y \<Longrightarrow> P y = P x" and "List.find P xs = Some x"
  shows "\<exists>y. List.find P ys = Some y \<and> R x y"
  using assms
proof (induction xs arbitrary: ys)
  case Nil
  then show ?case by simp
next
  case (Cons a xs)
  from Cons.prems(1) obtain b ys' where ys: "ys = b # ys'" and ab: "R a b"
    and rest: "rows_evolve R xs ys'"
    by (cases ys) (auto simp: rows_evolve_def)
  show ?case
  proof (cases "P a")
    case True
    then show ?thesis using Cons.prems ys ab by auto
  next
    case False
    then have "List.find P xs = Some x" using Cons.prems(3) by simp
    from Cons.IH[OF rest Cons.prems(2) this] obtain y where "List.find P ys' = Some y" "R x y" by blast
    moreover have "\<not> P b" using False ab Cons.prems(2) by blast
    ultimately show ?thesis using ys by auto
  qed
qed

lemma status_step_refl: "status_step a a"
  by (simp add: status_step_def)

lemma status_step_trans: "status_step a b \<Longrightarrow> status_step b c \<Longrightarrow> status_step a c"
  by (auto simp: status_step_def)

lemma transition_of_refl: "transition_of req a a"
  by (cases req) simp_all

lemma transition_of_status_step: "transition_of req a b \<Longrightarrow> status_step a b"
  by (cases req) (auto simp: status_step_def)

lemma license_rel_refl: "(\<And>a. T a a) \<Longrightarrow> license_rel T x x"
  by (simp add: license_rel_def)

lemma license_step_refl: "license_step x x"
  by (simp add: license_step_def license_rel_def status_step_refl)

lemma license_step_trans: "license_step x y \<Longrightarrow> license_step y z \<Longrightarrow> license_step x z"
  using status_step_trans by (auto simp: license_step_def license_rel_def)

lemma device_step_refl: "device_step x x"
  by (simp add: device_step_def)

lemma device_step_trans: "device_step x y \<Longrightarrow> device_step y z \<Longrightarrow> device_step x z"
  unfolding device_step_def by (metis device.update_convs(6) device.surjective device.select_convs)

lemma evolves_refl: "evolves s s"
  by (simp add: evolves_def rows_evolve_refl license_step_refl device_step_refl)

lemma evolves_trans:
  assumes "evolves a b" "evolves b c"
  shows "evolves a c"
proof -
  have "rows_evolve license_step (licenses a) (licenses c)"
    using assms license_step_trans
    by (auto simp: evolves_def intro: rows_evolve_trans[where ys="licenses b"])
  moreover have "rows_evolve device_step (devices a) (devices c)"
    using assms device_step_trans
    by (auto simp: evolves_def intro: rows_evolve_trans[where ys="devices b"])
  moreover have "rows_evolve (=) (audit_logs a) (audit_logs c)"
    using assms
    by (auto simp: evolves_def intro: rows_evolve_trans[where ys="audit_logs b"])
  ultimately show ?thesis by (simp add: evolves_def)
qed

subsection \<open>Every handler lets the store evolve\<close>

lemma evolves_by_refl: "evolves_by req s s"
  by (simp add: evolves_by_def rows_evolve_refl license_rel_refl transition_of_refl device_step_refl)

lemma evolves_by_evolves: "evolves_by req s s' \<Longrightarrow> evolves s s'"
  unfolding evolves_by_def evolves_def license_step_def
  by (auto elim!: rows_evolve_mono simp: license_rel_def transition_of_status_step)

lemma append_rows:
  "rows_evolve (license_rel (transition_of req)) xs (xs @ ys)"
  "rows_evolve device_step ds (ds @ es)"
  "rows_evolve (=) as (as @ bs)"
  by (simp_all add: rows_evolve_append license_rel_refl transition_of_refl device_step_refl)

lemma expire_rows:
  assumes "List.find P xs = Some x" "lic_status x = ''active''"
    and "transition_of req ''active'' ''expired''"
  shows "rows_evolve (license_rel (transition_of req)) xs (update_first P set_expired xs)"
  using assms
  by (intro rows_evolve_update_first) (auto simp: license_rel_def set_expired_def transition_of_refl)

lemma activate_evolves: "evolves_by (Activate data clk) s (snd (activate_license cfg data clk s))"
proof -
  have refl: "evolves_by (Activate data clk) s s" by (rule evolves_by_refl)
  show ?thesis
    using refl
    by (auto simp: activate_license_def Let_def evolves_by_def license_by_key_def append_rows
        expire_rows
        split: option.splits)
qed

lemma validate_rows:
  "rows_evolve device_step ds (update_first P (\<lambda>r. r\<lparr>dev_last_validated := Some t\<rparr>) ds)"
  by (intro rows_evolve_update_first) (simp_all add: device_step_def)

lemma validate_license_evolves:
  "evolves_by (Validate authorization clk) s (snd (validate_license user_id clk s))"
proof -
  have refl: "evolves_by (Validate authorization clk) s s" by (rule evolves_by_refl)
  show ?thesis
    using refl
    by (auto simp: validate_license_def evolves_by_def license_get_def validate_rows expire_rows
        split: option.splits)
qed

lemma validate_route_evolves:
  "evolves_by (Validate authorization clk) s (snd (validate_route cfg authorization clk s))"
  by (simp add: validate_route_def evolves_by_refl validate_license_evolves split: sum.splits)

lemma create_evolves: "evolves_by (Create form admin clk) s (snd (create_license form admin clk s))"
proof -
  have refl: "evolves_by (Create form admin clk) s s" by (rule evolves_by_refl)
  show ?thesis
    using refl
    by (auto simp: create_license_def evolves_by_def append_rows split: option.splits form_int.splits)
qed

lemma revoke_rows:
  "rows_evolve (license_rel (transition_of (Revoke license_id admin clk))) xs
     (update_first P (set_revoked t a) xs)"
  by (intro rows_evolve_update_first) (simp_all add: license_rel_def set_revoked_def)

lemma revoke_evolves:
  "evolves_by (Revoke license_id admin clk) s (snd (revoke_license license_id admin clk s))"
proof -
  have refl: "evolves_by (Revoke license_id admin clk) s s" by (rule evolves_by_refl)
  show ?thesis
    using refl
    by (auto simp: revoke_license_def evolves_by_def append_rows revoke_rows split: option.splits)
qed

lemma step_evolves_by: "evolves_by req s (step cfg s req)"
  by (cases req)
     (simp_all add: activate_evolves validate_route_evolves create_evolves revoke_evolves)

lemma run_evolves: "evolves s (run cfg s reqs)"
proof (induction reqs arbitrary: s)
  case Nil
  show ?case by (simp add: run_def evolves_refl)
next
  case (Cons req reqs)
  have "evolves s (step cfg s req)"
    by (rule evolves_by_evolves[OF step_evolves_by])
  moreover have "evolves (step cfg s req) (run cfg (step cfg s req) reqs)"
    by (rule Cons.IH)
  ultimately have "evolves s (run cfg (step cfg s req) reqs)"
    by (rule evolves_trans)
  then show ?case by (simp add: run_def)
qed

subsection \<open>Queries on an evolved store\<close>

lemma device_step_fields:
  "device_step x y \<Longrightarrow> dev_device_id y = dev_device_id x \<and> dev_license_id y = dev_license_id x \<and>
     dev_id y = dev_id x \<and> dev_is_active y = dev_is_active x"
  unfolding device_step_def by (metis device.select_convs device.surjective device.update_convs(6))

lemma license_by_key_evolves:
  assumes "evolves s s'" "license_by_key s k = Some L"
  shows "\<exists>L'. license_by_key s' k = Some L' \<and> license_step L L'"
proof -
  have "rows_evolve license_step (licenses s) (licenses s')"
    using assms(1) by (simp add: evolves_def)
  moreover have "\<And>x y. license_step x y \<Longrightarrow> (lic_key y = k) = (lic_key x = k)"
    by (simp add: license_step_def license_rel_def)
  moreover have "List.find (\<lambda>r. lic_key r = k) (licenses s) = Some L"
    using assms(2) by (simp add: license_by_key_def)
  ultimately show ?thesis
    unfolding license_by_key_def by (rule find_rows_evolve)
qed

lemma license_get_evolves:
  assumes "evolves s s'" "license_get s i = Some L"
  shows "\<exists>L'. license_get s' i = Some L' \<and> license_step L L'"
proof -
  have "rows_evolve license_step (licenses s) (licenses s')"
    using assms(1) by (simp add: evolves_def)
  moreover have "\<And>x y. license_step x y \<Longrightarrow> (lic_id y = i) = (lic_id x = i)"
    by (simp add: license_step_def license_rel_def)
  moreover have "List.find (\<lambda>r. lic_id r = i) (licenses s) = Some L"
    using assms(2) by (simp add: license_get_def)
  ultimately show ?thesis
    unfolding license_get_def by (rule find_rows_evolve)
qed

lemma device_by_device_id_evolves:
  assumes "evolves s s'" "device_by_device_id s d = Some dev"
  shows "\<exists>dev'. device_by_device_id s' d = Some dev' \<and> device_step dev dev'"
proof -
  have "rows_evolve device_step (devices s) (devices s')"
    using assms(1) by (simp add: evolves_def)
  moreover have "\<And>x y. device_step x y \<Longrightarrow> (dev_device_id y = d) = (dev_device_id x = d)"
    by (simp add: device_step_fields)
  moreover have "List.find (\<lambda>r. dev_device_id r = d) (devices s) = Some dev"
    using assms(2) by (simp add: device_by_device_id_def)
  ultimately show ?thesis
    unfolding device_by_device_id_def by (rule find_rows_evolve)
qed



lemma expired_or_revoked_stays:
  "license_step L L' \<Longrightarrow> lic_status L = ''expired'' \<or> lic_status L = ''revoked'' \<Longrightarrow>
   lic_status L' = ''expired'' \<or> lic_status L' = ''revoked''"
  by (auto simp: license_step_def license_rel_def status_step_def)

subsection \<open>Primary keys of licenses stay unique\<close>

lemma next_id_fresh: "next_id ids \<notin> set ids"
proof -
  have "x \<in> set ids \<Longrightarrow> x \<le> foldr max ids 0" for x
    by (induction ids) auto
  then show ?thesis by (fastforce simp: next_id_def)
qed

lemma map_update_first:
  "(\<And>x. g (f x) = g x) \<Longrightarrow> map g (update_first P f xs) = map g xs"
  by (induction xs) auto

lemma step_license_ids:
  "map lic_id (licenses (step cfg s req)) = map lic_id (licenses s) \<or>
   map lic_id (licenses (step cfg s req)) =
     map lic_id (licenses s) @ [next_id (map lic_id (licenses s))]"
proof (cases req)
  case (Activate data clk)
  then show ?thesis
    by (auto simp: activate_license_def Let_def map_update_first set_expired_def
        split: option.splits)
next
  case (Validate authorization clk)
  then show ?thesis
    by (auto simp: validate_route_def validate_license_def map_update_first set_expired_def
        split: option.splits sum.splits)
next
  case (Create form admin clk)
  then show ?thesis
    by (auto simp: create_license_def new_license_def split: option.splits form_int.splits)
next
  case (Revoke license_id admin clk)
  then show ?thesis
    by (auto simp: revoke_license_def map_update_first set_revoked_def split: option.splits)
qed

lemma step_distinct_ids:
  "distinct (map lic_id (licenses s)) \<Longrightarrow> distinct (map lic_id (licenses (step cfg s req)))"
  using step_license_ids[of cfg s req] next_id_fresh[of "map lic_id (licenses s)"] by auto

lemma run_distinct_ids:
  "distinct (map lic_id (licenses s)) \<Longrightarrow> distinct (map lic_id (licenses (run cfg s reqs)))"
  unfolding run_def by (induction reqs arbitrary: s) (simp_all add: step_distinct_ids)

lemma reachable_distinct_ids: "distinct (map lic_id (licenses (run cfg empty_store reqs)))"
  by (rule run_distinct_ids) (simp add: empty_store_def)

section \<open>Activation\<close>

lemma issue_token_Some:
  "0 \<le> now + JWT_ACCESS_TOKEN_EXPIRES \<Longrightarrow> now + JWT_ACCESS_TOKEN_EXPIRES \<le> datetime_max \<Longrightarrow>
   issue_token cfg d l now =
     Some (Jws \<lparr>jp_user_id = Some d, jp_license_id = Some l,
                jp_exp = Some (timegm (now + JWT_ACCESS_TOKEN_EXPIRES))\<rparr> (cfg_jwt_secret cfg))"
  by (simp add: issue_token_def dt_add_def)

lemma timegm_window: "timegm (t + JWT_ACCESS_TOKEN_EXPIRES) = timegm t + 86400"
  by (simp add: timegm_def JWT_ACCESS_TOKEN_EXPIRES_def us_per_second_def)

lemma bearer_own_token:
  "jwt_required cfg
     (Some (HeaderText ''Bearer '' (Some (Jws \<lparr>jp_user_id = Some d, jp_license_id = l,
        jp_exp = Some e\<rparr> (cfg_jwt_secret cfg))))) t =
   (if (if cfg_exp_inclusive cfg then e \<le> timegm t else e < timegm t)
    then Inl (ApiError 401 ''Token has expired'' None) else Inr d)"
  by (simp add: jwt_required_def jwt_decode_def)

lemma activate_first:
  assumes "license_by_key s k = Some L" "lic_status L = ''active''"
    "\<not> is_past (lic_expires_at L) (ac_check clk)"
    "device_by_device_id s d = None"
    "0 \<le> ac_token clk + JWT_ACCESS_TOKEN_EXPIRES" "ac_token clk + JWT_ACCESS_TOKEN_EXPIRES \<le> datetime_max"
  shows "activate_license cfg \<lparr>ar_license_key = Some k, ar_device_id = Some d, ar_device_info = i\<rparr> clk s =
    (Inr \<lparr>ao_token = Jws \<lparr>jp_user_id = Some d, jp_license_id = Some (lic_id L),
                jp_exp = Some (timegm (ac_token clk + JWT_ACCESS_TOKEN_EXPIRES))\<rparr> (cfg_jwt_secret cfg),
           ao_license_status = ''active'', ao_expires_at = lic_expires_at L\<rparr>,
     s\<lparr>devices := devices s @ [new_device s d (lic_id L) (case i of None \<Rightarrow> [] | Some x \<Rightarrow> x) (ac_registered clk)],
       audit_logs := audit_logs s @ [activation_log cfg s d (lic_id L) k (ac_audit clk)]\<rparr>)"
  using assms by (simp add: activate_license_def issue_token_Some Let_def)

lemma activate_again:
  assumes "license_by_key s k = Some L" "lic_status L = ''active''"
    "\<not> is_past (lic_expires_at L) (ac_check clk)"
    "device_by_device_id s d = Some dev" "dev_license_id dev = lic_id L"
    "0 \<le> ac_token clk + JWT_ACCESS_TOKEN_EXPIRES" "ac_token clk + JWT_ACCESS_TOKEN_EXPIRES \<le> datetime_max"
  shows "activate_license cfg \<lparr>ar_license_key = Some k, ar_device_id = Some d, ar_device_info = i\<rparr> clk s =
    (Inr \<lparr>ao_token = Jws \<lparr>jp_user_id = Some d, jp_license_id = Some (lic_id L),
                jp_exp = Some (timegm (ac_token clk + JWT_ACCESS_TOKEN_EXPIRES))\<rparr> (cfg_jwt_secret cfg),
           ao_license_status = ''active'', ao_expires_at = lic_expires_at L\<rparr>, s)"
  using assms by (simp add: activate_license_def issue_token_Some)

lemma find_None_filter: "List.find P xs = None \<Longrightarrow> filter P xs = []"
  by (induction xs) (auto split: if_splits)

text \<open>
  Claim C1. On a license that is found by its key, is active and has not expired at either
  call, activating a device identifier that is not registered yet and then activating the
  same pair again succeeds both times; each token verifies for the device when presented at
  its time of issue; the first call adds one Device row and one AuditLog row, the second
  call leaves the store as it is. In total one Device row (the only one with that device
  identifier) and one AuditLog row are created.
\<close>

theorem activate_twice:
  assumes lic: "license_by_key s k = Some L" and act: "lic_status L = ''active''"
    and v1: "\<not> is_past (lic_expires_at L) (ac_check c1)"
    and v2: "\<not> is_past (lic_expires_at L) (ac_check c2)"
    and fresh: "device_by_device_id s d = None"
    and r1: "0 \<le> ac_token c1 + JWT_ACCESS_TOKEN_EXPIRES" "ac_token c1 + JWT_ACCESS_TOKEN_EXPIRES \<le> datetime_max"
    and r2: "0 \<le> ac_token c2 + JWT_ACCESS_TOKEN_EXPIRES" "ac_token c2 + JWT_ACCESS_TOKEN_EXPIRES \<le> datetime_max"
  shows "\<exists>tok1 tok2 s1.
     activate_license cfg \<lparr>ar_license_key = Some k, ar_device_id = Some d, ar_device_info = i\<rparr> c1 s =
       (Inr \<lparr>ao_token = tok1, ao_license_status = ''active'', ao_expires_at = lic_expires_at L\<rparr>, s1) \<and>
     activate_license cfg \<lparr>ar_license_key = Some k, ar_device_id = Some d, ar_device_info = i\<rparr> c2 s1 =
       (Inr \<lparr>ao_token = tok2, ao_license_status = ''active'', ao_expires_at = lic_expires_at L\<rparr>, s1) \<and>
     jwt_required cfg (Some (HeaderText ''Bearer '' (Some tok1))) (ac_token c1) = Inr d \<and>
     jwt_required cfg (Some (HeaderText ''Bearer '' (Some tok2))) (ac_token c2) = Inr d \<and>
     length (devices s1) = length (devices s) + 1 \<and>
     length (filter (\<lambda>r. dev_device_id r = d) (devices s1)) = 1 \<and>
     length (audit_logs s1) = length (audit_logs s) + 1 \<and>
     licenses s1 = licenses s"
proof -
  let ?data = "\<lparr>ar_license_key = Some k, ar_device_id = Some d, ar_device_info = i\<rparr>"
  let ?dev = "new_device s d (lic_id L) (case i of None \<Rightarrow> [] | Some x \<Rightarrow> x) (ac_registered c1)"
  let ?s1 = "s\<lparr>devices := devices s @ [?dev],
               audit_logs := audit_logs s @ [activation_log cfg s d (lic_id L) k (ac_audit c1)]\<rparr>"
  let ?tok = "\<lambda>c. Jws \<lparr>jp_user_id = Some d, jp_license_id = Some (lic_id L),
                jp_exp = Some (timegm (ac_token c + JWT_ACCESS_TOKEN_EXPIRES))\<rparr> (cfg_jwt_secret cfg)"
  have first: "activate_license cfg ?data c1 s =
      (Inr \<lparr>ao_token = ?tok c1, ao_license_status = ''active'', ao_expires_at = lic_expires_at L\<rparr>, ?s1)"
    by (rule activate_first[OF lic act v1 fresh r1])
  have lic1: "license_by_key ?s1 k = Some L"
    using lic by (simp add: license_by_key_def)
  have dev1: "device_by_device_id ?s1 d = Some ?dev"
    using fresh by (simp add: device_by_device_id_def find_append_None new_device_def)
  have bound: "dev_license_id ?dev = lic_id L"
    by (simp add: new_device_def)
  have second: "activate_license cfg ?data c2 ?s1 =
      (Inr \<lparr>ao_token = ?tok c2, ao_license_status = ''active'', ao_expires_at = lic_expires_at L\<rparr>, ?s1)"
    by (rule activate_again[OF lic1 act v2 dev1 bound r2])
  have ok: "jwt_required cfg (Some (HeaderText ''Bearer '' (Some (?tok c)))) (ac_token c) = Inr d" for c
    by (simp add: bearer_own_token timegm_window)
  have one: "length (filter (\<lambda>r. dev_device_id r = d) (devices ?s1)) = 1"
    using find_None_filter[OF fresh[unfolded device_by_device_id_def]] by (simp add: new_device_def)
  have "length (devices ?s1) = length (devices s) + 1"
    "length (audit_logs ?s1) = length (audit_logs s) + 1" "licenses ?s1 = licenses s"
    by simp_all
  with first second ok one show ?thesis by blast
qed

text \<open>The scenario of the specification: \<open>KEY-A\<close> activated twice for \<open>dev1\<close>.\<close>

theorem activate_twice_witness:
  "\<exists>tok1 tok2 s1.
     activate_license sample_cfg \<lparr>ar_license_key = Some ''KEY-A'', ar_device_id = Some ''dev1'', ar_device_info = None\<rparr>
        (activate_at t0) store_AB =
       (Inr \<lparr>ao_token = tok1, ao_license_status = ''active'', ao_expires_at = Some (t0 + 7 * us_per_day)\<rparr>, s1) \<and>
     activate_license sample_cfg \<lparr>ar_license_key = Some ''KEY-A'', ar_device_id = Some ''dev1'', ar_device_info = None\<rparr>
        (activate_at (t0 + 60)) s1 =
       (Inr \<lparr>ao_token = tok2, ao_license_status = ''active'', ao_expires_at = Some (t0 + 7 * us_per_day)\<rparr>, s1) \<and>
     length (devices s1) = 1 \<and> length (audit_logs s1) = 1"
proof -
  have a: "license_by_key store_AB ''KEY-A'' = Some license_A"
    by (simp add: license_by_key_def store_AB_def license_A_def)
  have b: "lic_status license_A = ''active''" by (simp add: license_A_def)
  have c: "\<not> is_past (lic_expires_at license_A) (ac_check (activate_at t0))"
    "\<not> is_past (lic_expires_at license_A) (ac_check (activate_at (t0 + 60)))"
    by (simp_all add: is_past_def license_A_def activate_at_def us_per_day_def)
  have d: "device_by_device_id store_AB ''dev1'' = None"
    by (simp add: device_by_device_id_def store_AB_def)
  have e: "0 \<le> ac_token (activate_at t0) + JWT_ACCESS_TOKEN_EXPIRES"
    "ac_token (activate_at t0) + JWT_ACCESS_TOKEN_EXPIRES \<le> datetime_max"
    "0 \<le> ac_token (activate_at (t0 + 60)) + JWT_ACCESS_TOKEN_EXPIRES"
    "ac_token (activate_at (t0 + 60)) + JWT_ACCESS_TOKEN_EXPIRES \<le> datetime_max"
    by (simp_all add: activate_at_def t0_def JWT_ACCESS_TOKEN_EXPIRES_def us_per_second_def datetime_max_def)
  from activate_twice[OF a b c d e, of sample_cfg None]
  show ?thesis
    by (simp add: license_A_def store_AB_def) blast
qed

section \<open>License status transitions\<close>





section \<open>Lazy expiry\<close>

lemma find_distinct:
  "distinct (map g xs) \<Longrightarrow> x \<in> set xs \<Longrightarrow> List.find (\<lambda>r. g r = g x) xs = Some x"
  by (induction xs) (auto simp: rev_image_eqI)

lemma update_first_distinct:
  "distinct (map g xs) \<Longrightarrow> List.find P xs = Some x \<Longrightarrow>
   update_first P f xs = update_first (\<lambda>r. g r = g x) f xs"
proof (induction xs)
  case Nil
  then show ?case by simp
next
  case (Cons a xs)
  show ?case
  proof (cases "P a")
    case True
    then show ?thesis using Cons.prems by simp
  next
    case False
    then have found: "List.find P xs = Some x" using Cons.prems by simp
    then have "x \<in> set xs" by (rule find_Some_mem)
    then have "g a \<noteq> g x" using Cons.prems(1) by auto
    then show ?thesis using False Cons.IH found Cons.prems(1) by simp
  qed
qed

lemma activate_not_active:
  assumes "license_by_key s k = Some L" "lic_status L \<noteq> ''active''"
  shows "activate_license cfg \<lparr>ar_license_key = Some k, ar_device_id = Some d, ar_device_info = i\<rparr> clk s =
    (Inl (ApiError 400 ''License is not active'' None), s)"
  using assms by (simp add: activate_license_def)

lemma validate_not_active:
  assumes "device_by_device_id s d = Some dev" "license_get s (dev_license_id dev) = Some L"
    "lic_status L \<noteq> ''active''"
  shows "validate_license d clk s = (Inl (ApiError 400 ''License is not active'' (Some (lic_status L))), s)"
  using assms by (simp add: validate_license_def)

subsection \<open>With one session\<close>

text \<open>
  On the handlers as they are written the expiry is kept. For a license that is active with
  an expiration before the clock reading of the check, the first activate call with its key
  answers 400 "License has expired" and sets the status to expired; after any further
  requests every activate call with that key answers 400 "License is not active" and
  changes nothing. The license need not have a device.
\<close>

lemma expiry_first_activate:
  assumes lic: "license_by_key s k = Some L" and act: "lic_status L = ''active''"
    and exp: "lic_expires_at L = Some e"
    and s1: "s1 = s\<lparr>licenses := update_first (\<lambda>r. lic_key r = k) set_expired (licenses s)\<rparr>"
    and s2: "s2 = run cfg s1 reqs"
  shows "(e < ac_check ac \<longrightarrow>
            activate_license cfg \<lparr>ar_license_key = Some k, ar_device_id = Some d0, ar_device_info = i0\<rparr> ac s =
              (Inl (ApiError 400 ''License has expired'' None), s1)) \<and>
         license_by_key s1 k = Some (set_expired L) \<and>
         activate_license cfg \<lparr>ar_license_key = Some k, ar_device_id = Some d1, ar_device_info = i1\<rparr> ac' s2 =
           (Inl (ApiError 400 ''License is not active'' None), s2) \<and>
         (\<exists>L'. license_by_key s2 k = Some L' \<and> lic_status L' \<noteq> ''active'')"
proof -
  have first_a: "e < ac_check ac \<longrightarrow>
      activate_license cfg \<lparr>ar_license_key = Some k, ar_device_id = Some d0, ar_device_info = i0\<rparr> ac s =
        (Inl (ApiError 400 ''License has expired'' None), s1)"
    using lic act exp s1 by (simp add: activate_license_def is_past_def)
  have key_L: "lic_key L = k"
    using find_Some_holds[OF lic[unfolded license_by_key_def]] .
  have k1: "license_by_key s1 k = Some (set_expired L)"
    using lic key_L unfolding license_by_key_def s1
    by (simp add: find_update_first set_expired_def)
  have ev: "evolves s1 s2" unfolding s2 by (rule run_evolves)
  from license_by_key_evolves[OF ev k1] obtain Lk where
    Lk: "license_by_key s2 k = Some Lk" "license_step (set_expired L) Lk" by blast
  have st0: "lic_status (set_expired L) = ''expired'' \<or> lic_status (set_expired L) = ''revoked''"
    by (simp add: set_expired_def)
  have Lk_st: "lic_status Lk \<noteq> ''active''"
    using expired_or_revoked_stays[OF Lk(2) st0] by auto
  have later_a: "activate_license cfg \<lparr>ar_license_key = Some k, ar_device_id = Some d1, ar_device_info = i1\<rparr> ac' s2 =
      (Inl (ApiError 400 ''License is not active'' None), s2)"
    by (rule activate_not_active[OF Lk(1) Lk_st])
  show ?thesis
    using first_a k1 later_a Lk(1) Lk_st by blast
qed

text \<open>
  Likewise for validate, for a device bound to the license: the first call answers 400
  "License has expired" and sets the status; after any further requests every validate call
  of that device answers 400 "License is not active" with the status, expired or revoked.
\<close>

lemma expiry_first_validate:
  assumes ids: "distinct (map lic_id (licenses s))"
    and lic: "license_by_key s k = Some L" and act: "lic_status L = ''active''"
    and exp: "lic_expires_at L = Some e"
    and dev: "device_by_device_id s d = Some dev" and bound: "dev_license_id dev = lic_id L"
    and s1: "s1 = s\<lparr>licenses := update_first (\<lambda>r. lic_key r = k) set_expired (licenses s)\<rparr>"
    and s2: "s2 = run cfg s1 reqs"
  shows "(e < vc_check vc \<longrightarrow>
            validate_license d vc s = (Inl (ApiError 400 ''License has expired'' (Some ''expired'')), s1)) \<and>
         (\<exists>st. (st = ''expired'' \<or> st = ''revoked'') \<and>
            validate_license d vc' s2 = (Inl (ApiError 400 ''License is not active'' (Some st)), s2))"
proof -
  have mem: "L \<in> set (licenses s)"
    using lic unfolding license_by_key_def by (rule find_Some_mem)
  have by_id: "license_get s (lic_id L) = Some L"
    unfolding license_get_def using ids mem by (rule find_distinct)
  have same: "update_first (\<lambda>r. lic_key r = k) set_expired (licenses s) =
      update_first (\<lambda>r. lic_id r = lic_id L) set_expired (licenses s)"
    using ids lic unfolding license_by_key_def by (rule update_first_distinct)
  have first_v: "e < vc_check vc \<longrightarrow>
      validate_license d vc s = (Inl (ApiError 400 ''License has expired'' (Some ''expired'')), s1)"
    using dev bound by_id act exp s1 same by (simp add: validate_license_def is_past_def)
  have i1: "license_get s1 (lic_id L) = Some (set_expired L)"
    using by_id unfolding license_get_def s1 same
    by (simp add: find_update_first set_expired_def)
  have d1: "device_by_device_id s1 d = Some dev"
    using dev by (simp add: device_by_device_id_def s1)
  have ev: "evolves s1 s2" unfolding s2 by (rule run_evolves)
  from license_get_evolves[OF ev i1] obtain Li where
    Li: "license_get s2 (lic_id L) = Some Li" "license_step (set_expired L) Li" by blast
  from device_by_device_id_evolves[OF ev d1] obtain dev' where
    dev': "device_by_device_id s2 d = Some dev'" "device_step dev dev'" by blast
  have bound': "dev_license_id dev' = lic_id L"
    using device_step_fields[OF dev'(2)] bound by simp
  have st0: "lic_status (set_expired L) = ''expired'' \<or> lic_status (set_expired L) = ''revoked''"
    by (simp add: set_expired_def)
  have Li_st: "lic_status Li = ''expired'' \<or> lic_status Li = ''revoked''"
    by (rule expired_or_revoked_stays[OF Li(2) st0])
  then have Li_na: "lic_status Li \<noteq> ''active''" by auto
  have Li': "license_get s2 (dev_license_id dev') = Some Li"
    unfolding bound' by (rule Li(1))
  have "validate_license d vc' s2 = (Inl (ApiError 400 ''License is not active'' (Some (lic_status Li))), s2)"
    by (rule validate_not_active[OF dev'(1) Li' Li_na])
  with Li_st have later_v: "\<exists>st. (st = ''expired'' \<or> st = ''revoked'') \<and>
      validate_license d vc' s2 = (Inl (ApiError 400 ''License is not active'' (Some st)), s2)"
    by blast
  show ?thesis
    using first_v later_v by blast
qed

subsection \<open>As the sessions are wired\<close>

lemma committed_same: "committed s s = s"
  by (simp add: committed_def)

lemma committed_added:
  "committed s (s\<lparr>devices := devices s @ ds, audit_logs := audit_logs s @ ls\<rparr>) =
     s\<lparr>devices := devices s @ ds, audit_logs := audit_logs s @ ls\<rparr>"
  by (simp add: committed_def)

lemma committed_assigned:
  "committed s (s\<lparr>licenses := update_first P f (licenses s)\<rparr>) = s"
  by (simp add: committed_def length_update_first)

text \<open>
  A first activation adds its rows to \<open>db.session\<close> and assigns to no loaded row: the wiring
  makes no difference to it.
\<close>

lemma activate_first_as_wired:
  assumes "license_by_key s k = Some L" "lic_status L = ''active''"
    "\<not> is_past (lic_expires_at L) (ac_check clk)"
    "device_by_device_id s d = None"
    "0 \<le> ac_token clk + JWT_ACCESS_TOKEN_EXPIRES" "ac_token clk + JWT_ACCESS_TOKEN_EXPIRES \<le> datetime_max"
  shows "activate_license_as_wired cfg \<lparr>ar_license_key = Some k, ar_device_id = Some d, ar_device_info = i\<rparr> clk s =
     activate_license cfg \<lparr>ar_license_key = Some k, ar_device_id = Some d, ar_device_info = i\<rparr> clk s"
  by (simp add: activate_license_as_wired_def activate_first[OF assms] committed_added)

text \<open>
  Claim C3: the code does not keep it. A license has passed its expiration and is still
  active. The first activate call with its key, and the first validate call of a device
  bound to it, answer 400 "License has expired", and the handler sets the status of the
  row it loaded to expired. But the row belongs to the session of \<open>models.py\<close>, and the
  handler commits the session of \<open>app.py\<close>: the database holds the same store as before the
  call, with the license active. The change is not persisted.
\<close>

theorem lazy_expiry_not_stored:
  "activate_license sample_cfg
      \<lparr>ar_license_key = Some ''OLD'', ar_device_id = Some ''dev7'', ar_device_info = None\<rparr>
      (activate_at (t0 + 5)) store_old =
     (Inl (ApiError 400 ''License has expired'' None), store_old_expired) \<and>
   activate_license_as_wired sample_cfg
      \<lparr>ar_license_key = Some ''OLD'', ar_device_id = Some ''dev7'', ar_device_info = None\<rparr>
      (activate_at (t0 + 5)) store_old =
     (Inl (ApiError 400 ''License has expired'' None), store_old) \<and>
   validate_license_as_wired ''dev1'' (validate_at (t0 + 5)) store_old =
     (Inl (ApiError 400 ''License has expired'' (Some ''expired'')), store_old) \<and>
   license_by_key store_old ''OLD'' = Some license_old \<and>
   lic_status license_old = ''active'' \<and> lic_expires_at license_old = Some t0"
proof -
  have a: "activate_license sample_cfg
      \<lparr>ar_license_key = Some ''OLD'', ar_device_id = Some ''dev7'', ar_device_info = None\<rparr>
      (activate_at (t0 + 5)) store_old =
     (Inl (ApiError 400 ''License has expired'' None), store_old_expired)"
    by (simp add: activate_license_def license_by_key_def store_old_def license_old_def
        is_past_def activate_at_def set_expired_def store_old_expired_def)
  have v: "validate_license ''dev1'' (validate_at (t0 + 5)) store_old =
     (Inl (ApiError 400 ''License has expired'' (Some ''expired'')), store_old_expired)"
    by (simp add: validate_license_def device_by_device_id_def license_get_def store_old_def
        device_1_def license_old_def is_past_def validate_at_def set_expired_def
        store_old_expired_def)
  have c: "committed store_old store_old_expired = store_old"
    by (simp add: committed_def store_old_def store_old_expired_def)
  have l: "license_by_key store_old ''OLD'' = Some license_old"
    by (simp add: license_by_key_def store_old_def license_old_def)
  show ?thesis
    using a v c l
    by (simp add: activate_license_as_wired_def validate_license_as_wired_def license_old_def)
qed

section \<open>Device binding conflicts\<close>

text \<open>
  Claim C4. Let a device identifier be bound to a license, and let a different key select an
  active license that has not expired. Activating the device identifier with that key answers
  400 "Device already registered with different license" and leaves the whole store as it
  was: the device stays bound to its first license, and no Device or AuditLog row is added.
\<close>

theorem conflict_leaves_binding:
  assumes ids: "distinct (map lic_id (licenses s))"
    and dev: "device_by_device_id s d = Some dev"
    and first: "license_get s (dev_license_id dev) = Some A"
    and other: "license_by_key s k = Some B" and differ: "lic_key A \<noteq> k"
    and act: "lic_status B = ''active''"
    and valid: "\<not> is_past (lic_expires_at B) (ac_check clk)"
  shows "activate_license cfg \<lparr>ar_license_key = Some k, ar_device_id = Some d, ar_device_info = i\<rparr> clk s =
    (Inl (ApiError 400 ''Device already registered with different license'' None), s)"
proof -
  have "dev_license_id dev \<noteq> lic_id B"
  proof
    assume eq: "dev_license_id dev = lic_id B"
    have "B \<in> set (licenses s)"
      using other unfolding license_by_key_def by (rule find_Some_mem)
    with ids have "license_get s (lic_id B) = Some B"
      unfolding license_get_def by (rule find_distinct)
    with first eq have "A = B" by simp
    moreover have "lic_key B = k"
      using find_Some_holds[OF other[unfolded license_by_key_def]] .
    ultimately show False using differ by simp
  qed
  then show ?thesis
    using dev other act valid by (simp add: activate_license_def)
qed

text \<open>\<open>dev1\<close> is bound to \<open>KEY-A\<close> and is activated with \<open>KEY-B\<close>.\<close>

theorem conflict_leaves_binding_witness:
  "activate_license sample_cfg
     \<lparr>ar_license_key = Some ''KEY-B'', ar_device_id = Some ''dev1'', ar_device_info = None\<rparr>
     (activate_at t0) store_bound =
   (Inl (ApiError 400 ''Device already registered with different license'' None), store_bound)"
proof -
  have ids: "distinct (map lic_id (licenses store_bound))"
    by (simp add: store_bound_def license_A_def license_B_def)
  have dev: "device_by_device_id store_bound ''dev1'' = Some device_1"
    by (simp add: device_by_device_id_def store_bound_def device_1_def)
  have first: "license_get store_bound (dev_license_id device_1) = Some license_A"
    by (simp add: license_get_def store_bound_def device_1_def license_A_def)
  have other: "license_by_key store_bound ''KEY-B'' = Some license_B"
    by (simp add: license_by_key_def store_bound_def license_A_def license_B_def)
  have differ: "lic_key license_A \<noteq> ''KEY-B''" by (simp add: license_A_def)
  have act: "lic_status license_B = ''active''" by (simp add: license_B_def)
  have valid: "\<not> is_past (lic_expires_at license_B) (ac_check (activate_at t0))"
    by (simp add: is_past_def license_B_def)
  show ?thesis
    by (rule conflict_leaves_binding[OF ids dev first other differ act valid])
qed

section \<open>Validation after revocation\<close>




section \<open>The audit entry of an activation\<close>

text \<open>
  Claim C9 as stated fails. The first device of a store is activated with the device
  identifier \<open>1\<close>. The string is handed to the INTEGER column, which holds the integer 1
  for it, and 1 is the row id of the Device row the same call creates: the audit entry
  does reference the new Device row by its row id.
\<close>

theorem audit_device_id_counterexample:
  "fst (activate_license sample_cfg
      \<lparr>ar_license_key = Some ''KEY-A'', ar_device_id = Some ''1'', ar_device_info = None\<rparr>
      (activate_at t0) store_AB) =
     Inr \<lparr>ao_token = Jws \<lparr>jp_user_id = Some ''1'', jp_license_id = Some 1,
             jp_exp = Some (timegm (t0 + 3 + JWT_ACCESS_TOKEN_EXPIRES))\<rparr> ''secret'',
           ao_license_status = ''active'', ao_expires_at = Some (t0 + 7 * us_per_day)\<rparr> \<and>
   map dev_device_id (devices (snd (activate_license sample_cfg
      \<lparr>ar_license_key = Some ''KEY-A'', ar_device_id = Some ''1'', ar_device_info = None\<rparr>
      (activate_at t0) store_AB))) = [''1''] \<and>
   map dev_id (devices (snd (activate_license sample_cfg
      \<lparr>ar_license_key = Some ''KEY-A'', ar_device_id = Some ''1'', ar_device_info = None\<rparr>
      (activate_at t0) store_AB))) = [1] \<and>
   map al_device_id (audit_logs (snd (activate_license sample_cfg
      \<lparr>ar_license_key = Some ''KEY-A'', ar_device_id = Some ''1'', ar_device_info = None\<rparr>
      (activate_at t0) store_AB))) = [Some (IntVal 1)]"
  by (simp add: activate_license_def store_AB_def license_by_key_def license_A_def is_past_def
      activate_at_def us_per_day_def device_by_device_id_def issue_token_def dt_add_def
      JWT_ACCESS_TOKEN_EXPIRES_def us_per_second_def t0_def datetime_max_def Let_def
      new_device_def next_id_def activation_log_def sample_cfg_def digits_as_integer_def
      digit_of_def)

text \<open>
  Claim C9, amended. A successful activation of a device identifier that was not registered
  appends exactly one Device row, with the next row id, and exactly one AuditLog row, with
  the action \<open>license_activated\<close>. The \<open>device_id\<close> field of the audit row is filled from the
  string the caller sent, never from the row id of the new Device row: it holds what the
  INTEGER column makes of that string. So the audit entry references the new Device row by
  its row id exactly when the column reads the caller's string as that number.
\<close>

theorem activation_audit_device_id:
  assumes fresh: "device_by_device_id s d = None"
    and req: "ar_device_id data = Some d"
    and ok: "activate_license cfg data clk s = (Inr res, s')"
  shows "\<exists>a newdev. audit_logs s' = audit_logs s @ [a] \<and> devices s' = devices s @ [newdev] \<and>
     al_action a = ''license_activated'' \<and> al_device_id a = Some (cfg_integer_column cfg d) \<and>
     dev_device_id newdev = d \<and> dev_id newdev = next_id (map dev_id (devices s)) \<and>
     al_license_id a = Some (dev_license_id newdev) \<and>
     (al_device_id a = Some (IntVal (dev_id newdev)) \<longleftrightarrow>
        cfg_integer_column cfg d = IntVal (next_id (map dev_id (devices s))))"
  using assms
  by (auto simp: activate_license_def Let_def new_device_def activation_log_def
      split: option.splits if_splits)

text \<open>
  The first activation of \<open>dev1\<close> with \<open>KEY-A\<close>: the column keeps the text, which is not the
  row id 1 of the new Device row.
\<close>

theorem activation_audit_device_id_witness:
  "\<exists>a newdev.
     audit_logs (snd (activate_license sample_cfg
        \<lparr>ar_license_key = Some ''KEY-A'', ar_device_id = Some ''dev1'', ar_device_info = None\<rparr>
        (activate_at t0) store_AB)) = [a] \<and>
     devices (snd (activate_license sample_cfg
        \<lparr>ar_license_key = Some ''KEY-A'', ar_device_id = Some ''dev1'', ar_device_info = None\<rparr>
        (activate_at t0) store_AB)) = [newdev] \<and>
     al_device_id a = Some (StrVal ''dev1'') \<and> dev_id newdev = 1 \<and>
     al_device_id a \<noteq> Some (IntVal (dev_id newdev))"
proof -
  let ?data = "\<lparr>ar_license_key = Some ''KEY-A'', ar_device_id = Some ''dev1'', ar_device_info = None\<rparr>"
  have fresh: "device_by_device_id store_AB ''dev1'' = None"
    by (simp add: device_by_device_id_def store_AB_def)
  have req: "ar_device_id ?data = Some ''dev1''" by simp
  have "\<exists>res s'. activate_license sample_cfg ?data (activate_at t0) store_AB = (Inr res, s')"
    by (simp add: activate_license_def store_AB_def license_by_key_def license_A_def is_past_def
        activate_at_def us_per_day_def device_by_device_id_def issue_token_def dt_add_def
        JWT_ACCESS_TOKEN_EXPIRES_def us_per_second_def t0_def datetime_max_def Let_def)
  then obtain res s' where ok: "activate_license sample_cfg ?data (activate_at t0) store_AB = (Inr res, s')"
    by blast
  have empty: "audit_logs store_AB = []" "devices store_AB = []"
    by (simp_all add: store_AB_def)
  have column: "cfg_integer_column sample_cfg ''dev1'' = StrVal ''dev1''"
    by (simp add: sample_cfg_def digits_as_integer_def digit_of_def)
  from activation_audit_device_id[OF fresh req ok]
  show ?thesis
    by (auto simp: ok empty column next_id_def)
qed

section \<open>Revoking twice\<close>




section \<open>Creating licenses\<close>

text \<open>
  Claim C7 as stated fails: a create request with the fresh key \<open>NEG\<close> and
  \<open>duration_days = -1\<close> is accepted, and a License row is created whose expiration lies one
  day in the past.
\<close>

theorem create_negative_counterexample:
  "create_license \<lparr>cf_key = Some ''NEG'', cf_duration_days = IntText (- 1)\<rparr> 1 (create_at t0) empty_store =
     (Flash ''License created successfully'' ''success'',
      \<lparr>licenses = [\<lparr>lic_id = 1, lic_key = ''NEG'', lic_status = ''active'',
          lic_expires_at = Some (t0 - us_per_day), lic_created_at = Some (t0 + 1),
          lic_revoked_at = None, lic_created_by = Some 1, lic_revoked_by = None\<rparr>],
       devices = [], audit_logs = []\<rparr>)"
  by (simp add: create_license_def empty_store_def license_by_key_def timedelta_days_def dt_add_def
      create_at_def t0_def us_per_day_def datetime_max_def new_license_def next_id_def)

text \<open>
  Claim C7, amended. Let the key be present and not empty and let \<open>duration_days\<close> be absent
  (then 7) or an integer \<open>n\<close>. With a key that exists already the request fails with "License
  key already exists" and the store is unchanged. With a fresh key, \<open>n\<close> of either sign within
  the range of \<open>timedelta\<close> and now plus \<open>n\<close> days within the range of \<open>datetime\<close>, the request
  succeeds: exactly one License row is appended, with a new id, status active, no revocation
  data, and expiration now plus \<open>n\<close> days, which lies in the past when \<open>n\<close> is negative.
\<close>

theorem create_license_outcomes:
  assumes key: "cf_key form = Some k" "k \<noteq> []"
    and dur: "cf_duration_days form = IntText n \<or> (cf_duration_days form = Absent \<and> n = 7)"
  shows "(license_by_key s k \<noteq> None \<longrightarrow>
            create_license form admin clk s = (Flash ''License key already exists'' ''error'', s)) \<and>
         (license_by_key s k = None \<and> \<bar>n\<bar> \<le> 999999999 \<and>
          0 \<le> cc_expires clk + n * us_per_day \<and> cc_expires clk + n * us_per_day \<le> datetime_max \<longrightarrow>
            create_license form admin clk s =
              (Flash ''License created successfully'' ''success'',
               s\<lparr>licenses := licenses s @
                  [\<lparr>lic_id = next_id (map lic_id (licenses s)), lic_key = k, lic_status = ''active'',
                    lic_expires_at = Some (cc_expires clk + n * us_per_day),
                    lic_created_at = Some (cc_created clk), lic_revoked_at = None,
                    lic_created_by = Some admin, lic_revoked_by = None\<rparr>]\<rparr>) \<and>
            next_id (map lic_id (licenses s)) \<notin> set (map lic_id (licenses s)))"
  using key dur next_id_fresh[of "map lic_id (licenses s)"]
  by (auto simp: create_license_def timedelta_days_def dt_add_def new_license_def)

text \<open>The scenario of the specification: \<open>KEY-A\<close> for 7 days, and \<open>KEY-A\<close> once more.\<close>

theorem create_license_outcomes_witness:
  "create_license \<lparr>cf_key = Some ''KEY-A'', cf_duration_days = IntText 7\<rparr> 1 (create_at t0) empty_store =
     (Flash ''License created successfully'' ''success'',
      \<lparr>licenses = [license_A\<lparr>lic_created_at := Some (t0 + 1)\<rparr>], devices = [], audit_logs = []\<rparr>) \<and>
   create_license \<lparr>cf_key = Some ''KEY-A'', cf_duration_days = IntText 7\<rparr> 1 (create_at t0) store_AB =
     (Flash ''License key already exists'' ''error'', store_AB)"
proof -
  let ?form = "\<lparr>cf_key = Some ''KEY-A'', cf_duration_days = IntText 7\<rparr>"
  have key: "cf_key ?form = Some ''KEY-A''" "''KEY-A'' \<noteq> []" by simp_all
  have dur: "cf_duration_days ?form = IntText 7 \<or> (cf_duration_days ?form = Absent \<and> (7::int) = 7)"
    by simp
  have fresh: "license_by_key empty_store ''KEY-A'' = None"
    by (simp add: license_by_key_def empty_store_def)
  have range: "\<bar>7::int\<bar> \<le> 999999999" "0 \<le> cc_expires (create_at t0) + 7 * us_per_day"
    "cc_expires (create_at t0) + 7 * us_per_day \<le> datetime_max"
    by (simp_all add: create_at_def t0_def us_per_day_def datetime_max_def)
  have dup: "license_by_key store_AB ''KEY-A'' \<noteq> None"
    by (simp add: license_by_key_def store_AB_def license_A_def)
  from create_license_outcomes[OF key dur, of empty_store 1 "create_at t0"] fresh range
    create_license_outcomes[OF key dur, of store_AB 1 "create_at t0"] dup
  show ?thesis
    by (simp add: empty_store_def license_A_def create_at_def next_id_def)
qed

section \<open>Token validity\<close>

text \<open>
  Claim C5 as stated fails, whichever comparison the JWT library makes. A token issued half
  a second after \<open>t0\<close> carries the whole second of \<open>t0\<close> plus 24 hours as \<open>exp\<close>. With a
  library that rejects from \<open>exp\<close> on, it has expired 0.3 seconds before issue time plus 24
  hours; with a library that rejects only after \<open>exp\<close>, it still verifies 0.3 seconds after
  issue time plus 24 hours.
\<close>

theorem token_boundary_counterexample:
  "issue_token sample_cfg ''dev1'' 1 (t0 + 500000) = Some token_half \<and>
   issue_token sample_cfg_strict ''dev1'' 1 (t0 + 500000) = Some token_half \<and>
   t0 + 200000 + JWT_ACCESS_TOKEN_EXPIRES < t0 + 500000 + JWT_ACCESS_TOKEN_EXPIRES \<and>
   jwt_required sample_cfg (bearer token_half) (t0 + 200000 + JWT_ACCESS_TOKEN_EXPIRES) =
     Inl (ApiError 401 ''Token has expired'' None) \<and>
   t0 + 500000 + JWT_ACCESS_TOKEN_EXPIRES < t0 + 800000 + JWT_ACCESS_TOKEN_EXPIRES \<and>
   jwt_required sample_cfg_strict (bearer token_half) (t0 + 800000 + JWT_ACCESS_TOKEN_EXPIRES) =
     Inr ''dev1''"
  by (simp add: issue_token_def dt_add_def sample_cfg_def sample_cfg_strict_def token_half_def
      bearer_def jwt_required_def jwt_decode_def timegm_def t0_def JWT_ACCESS_TOKEN_EXPIRES_def
      us_per_second_def datetime_max_def)

lemma timegm_mono: "a \<le> b \<Longrightarrow> timegm a \<le> timegm b"
  by (simp add: timegm_def us_per_second_def zdiv_mono1)

lemma timegm_next_second: "timegm (a + us_per_second) = timegm a + 1"
  by (simp add: timegm_def us_per_second_def)

lemma timegm_less: "a + us_per_second \<le> b \<Longrightarrow> timegm a < timegm b"
  using timegm_mono[of "a + us_per_second" b] by (simp add: timegm_next_second)

text \<open>
  Claim C5, amended. A token issued for device \<open>d\<close> at time \<open>T\<close> carries as \<open>exp\<close> the whole
  second of \<open>T\<close> plus the window of 24 hours. Presented as a Bearer token (or bare) it either
  verifies for \<open>d\<close> or fails with "Token has expired": it verifies at every time whose whole
  second is before \<open>exp\<close>, in particular up to one second before \<open>T\<close> plus 24 hours; it has
  expired at every time whose whole second is after \<open>exp\<close>, in particular from one second
  after \<open>T\<close> plus 24 hours on; within the second \<open>exp\<close> the outcome is that of the library's
  comparison. A missing or empty header fails with "Token is missing"; a header without a
  well-formed token, with characters in front of the token, or with a token signed with
  another key fails with "Token is invalid".
\<close>

theorem token_window:
  assumes issued: "issue_token cfg d l T = Some tok"
  shows "(timegm t < timegm (T + JWT_ACCESS_TOKEN_EXPIRES) \<longrightarrow> jwt_required cfg (bearer tok) t = Inr d) \<and>
     (timegm (T + JWT_ACCESS_TOKEN_EXPIRES) < timegm t \<longrightarrow>
        jwt_required cfg (bearer tok) t = Inl (ApiError 401 ''Token has expired'' None)) \<and>
     (timegm t = timegm (T + JWT_ACCESS_TOKEN_EXPIRES) \<longrightarrow>
        jwt_required cfg (bearer tok) t =
          (if cfg_exp_inclusive cfg then Inl (ApiError 401 ''Token has expired'' None) else Inr d)) \<and>
     (t + us_per_second \<le> T + JWT_ACCESS_TOKEN_EXPIRES \<longrightarrow> jwt_required cfg (bearer tok) t = Inr d) \<and>
     (T + JWT_ACCESS_TOKEN_EXPIRES + us_per_second \<le> t \<longrightarrow>
        jwt_required cfg (bearer tok) t = Inl (ApiError 401 ''Token has expired'' None)) \<and>
     jwt_required cfg (Some (HeaderText [] (Some tok))) t = jwt_required cfg (bearer tok) t \<and>
     jwt_required cfg None t = Inl (ApiError 401 ''Token is missing'' None) \<and>
     jwt_required cfg (Some (HeaderText [] None)) t = Inl (ApiError 401 ''Token is missing'' None) \<and>
     (p \<noteq> [] \<longrightarrow>
        jwt_required cfg (Some (HeaderText p None)) t = Inl (ApiError 401 ''Token is invalid'' None)) \<and>
     (p \<noteq> [] \<and> p \<noteq> ''Bearer '' \<longrightarrow>
        jwt_required cfg (Some (HeaderText p (Some other))) t = Inl (ApiError 401 ''Token is invalid'' None)) \<and>
     (key \<noteq> cfg_jwt_secret cfg \<longrightarrow>
        jwt_required cfg (bearer (Jws payload key)) t = Inl (ApiError 401 ''Token is invalid'' None))"
proof -
  let ?e = "timegm (T + JWT_ACCESS_TOKEN_EXPIRES)"
  have tok: "tok = Jws \<lparr>jp_user_id = Some d, jp_license_id = Some l, jp_exp = Some ?e\<rparr> (cfg_jwt_secret cfg)"
    using issued by (auto simp: issue_token_def dt_add_def split: if_splits)
  have own: "jwt_required cfg (bearer tok) t =
      (if (if cfg_exp_inclusive cfg then ?e \<le> timegm t else ?e < timegm t)
       then Inl (ApiError 401 ''Token has expired'' None) else Inr d)"
    unfolding tok bearer_def by (rule bearer_own_token)
  have early: "t + us_per_second \<le> T + JWT_ACCESS_TOKEN_EXPIRES \<longrightarrow> timegm t < ?e"
    using timegm_less by blast
  have late: "T + JWT_ACCESS_TOKEN_EXPIRES + us_per_second \<le> t \<longrightarrow> ?e < timegm t"
    using timegm_less by blast
  have bare: "jwt_required cfg (Some (HeaderText [] (Some tok))) t = jwt_required cfg (bearer tok) t"
    by (simp add: jwt_required_def bearer_def)
  have missing: "jwt_required cfg None t = Inl (ApiError 401 ''Token is missing'' None)"
    "jwt_required cfg (Some (HeaderText [] None)) t = Inl (ApiError 401 ''Token is missing'' None)"
    by (simp_all add: jwt_required_def)
  have no_token: "p \<noteq> [] \<longrightarrow>
      jwt_required cfg (Some (HeaderText p None)) t = Inl (ApiError 401 ''Token is invalid'' None)"
    by (simp add: jwt_required_def jwt_decode_def)
  have "take 7 p = ''Bearer '' \<Longrightarrow> p \<noteq> ''Bearer '' \<Longrightarrow> drop 7 p \<noteq> []"
    by (metis append_take_drop_id append_Nil2)
  then have junk: "p \<noteq> [] \<and> p \<noteq> ''Bearer '' \<longrightarrow>
      jwt_required cfg (Some (HeaderText p (Some other))) t = Inl (ApiError 401 ''Token is invalid'' None)"
    by (cases other) (auto simp: jwt_required_def jwt_decode_def)
  have forged: "key \<noteq> cfg_jwt_secret cfg \<longrightarrow>
      jwt_required cfg (bearer (Jws payload key)) t = Inl (ApiError 401 ''Token is invalid'' None)"
    by (simp add: jwt_required_def jwt_decode_def bearer_def)
  show ?thesis
    using own early late bare missing no_token junk forged by auto
qed

text \<open>
  The token of the counterexample: presented at \<open>t0\<close>, two days later, and within the second
  of its \<open>exp\<close>; a header without token, one with other characters in front, a forged token.
\<close>

theorem token_window_witness:
  "jwt_required sample_cfg (bearer token_half) t0 = Inr ''dev1'' \<and>
   jwt_required sample_cfg (bearer token_half) (t0 + 2 * us_per_day) =
     Inl (ApiError 401 ''Token has expired'' None) \<and>
   jwt_required sample_cfg (bearer token_half) (t0 + JWT_ACCESS_TOKEN_EXPIRES + 100) =
     Inl (ApiError 401 ''Token has expired'' None) \<and>
   jwt_required sample_cfg (Some (HeaderText ''Bearer abc'' None)) t0 =
     Inl (ApiError 401 ''Token is invalid'' None) \<and>
   jwt_required sample_cfg (Some (HeaderText ''Token '' (Some token_half))) t0 =
     Inl (ApiError 401 ''Token is invalid'' None) \<and>
   jwt_required sample_cfg
     (bearer (Jws \<lparr>jp_user_id = Some ''dev1'', jp_license_id = Some 1, jp_exp = None\<rparr> ''guess'')) t0 =
     Inl (ApiError 401 ''Token is invalid'' None)"
proof -
  have issued: "issue_token sample_cfg ''dev1'' 1 (t0 + 500000) = Some token_half"
    by (simp add: issue_token_def dt_add_def sample_cfg_def token_half_def timegm_def t0_def
        JWT_ACCESS_TOKEN_EXPIRES_def us_per_second_def datetime_max_def)
  have times: "timegm t0 < timegm (t0 + 500000 + JWT_ACCESS_TOKEN_EXPIRES)"
    "timegm (t0 + 500000 + JWT_ACCESS_TOKEN_EXPIRES) < timegm (t0 + 2 * us_per_day)"
    "timegm (t0 + JWT_ACCESS_TOKEN_EXPIRES + 100) = timegm (t0 + 500000 + JWT_ACCESS_TOKEN_EXPIRES)"
    by (simp_all add: timegm_def t0_def JWT_ACCESS_TOKEN_EXPIRES_def us_per_second_def us_per_day_def)
  have other: "''Bearer abc'' \<noteq> []" "''Token '' \<noteq> [] \<and> ''Token '' \<noteq> ''Bearer ''"
    "''guess'' \<noteq> cfg_jwt_secret sample_cfg" "cfg_exp_inclusive sample_cfg"
    by (simp_all add: sample_cfg_def)
  have a: "jwt_required sample_cfg (bearer token_half) t0 = Inr ''dev1''"
    using token_window[OF issued, where t = t0] times(1) by simp
  have b: "jwt_required sample_cfg (bearer token_half) (t0 + 2 * us_per_day) =
      Inl (ApiError 401 ''Token has expired'' None)"
    using token_window[OF issued, where t = "t0 + 2 * us_per_day"] times(2) by simp
  have c: "jwt_required sample_cfg (bearer token_half) (t0 + JWT_ACCESS_TOKEN_EXPIRES + 100) =
      Inl (ApiError 401 ''Token has expired'' None)"
    using token_window[OF issued, where t = "t0 + JWT_ACCESS_TOKEN_EXPIRES + 100"] times(3) other(4)
    by simp
  have d: "jwt_required sample_cfg (Some (HeaderText ''Bearer abc'' None)) t0 =
      Inl (ApiError 401 ''Token is invalid'' None)"
    using token_window[OF issued, where t = t0 and p = "''Bearer abc''"] other(1) by simp
  have e: "jwt_required sample_cfg (Some (HeaderText ''Token '' (Some token_half))) t0 =
      Inl (ApiError 401 ''Token is invalid'' None)"
    using token_window[OF issued, where t = t0 and p = "''Token ''" and other = token_half] other(2)
    by simp
  have f: "jwt_required sample_cfg
      (bearer (Jws \<lparr>jp_user_id = Some ''dev1'', jp_license_id = Some 1, jp_exp = None\<rparr> ''guess'')) t0 =
      Inl (ApiError 401 ''Token is invalid'' None)"
    using token_window[OF issued, where t = t0 and key = "''guess''"] other(3) by simp
  from a b c d e f show ?thesis by simp
qed

section \<open>Days remaining\<close>

text \<open>
  What a successful validate call returns and changes, in terms of its clock readings: the
  license passed the status and expiry checks, \<open>days_remaining\<close> is absent without an
  expiration and otherwise the whole days from the last clock reading to the expiration,
  and only \<open>last_validated\<close> of the device row is written.
\<close>

lemma validate_success:
  assumes "validate_license user_id clk s = (Inr res, s')"
  shows "\<exists>device license_obj.
     device_by_device_id s user_id = Some device \<and>
     license_get s (dev_license_id device) = Some license_obj \<and>
     lic_status license_obj = ''active'' \<and>
     \<not> is_past (lic_expires_at license_obj) (vc_check clk) \<and>
     vo_days_remaining res = map_option (\<lambda>e. td_days (e - vc_days clk)) (lic_expires_at license_obj) \<and>
     licenses s' = licenses s \<and> audit_logs s' = audit_logs s \<and>
     devices s' = update_first (\<lambda>r. dev_device_id r = user_id)
                    (\<lambda>r. r\<lparr>dev_last_validated := Some (vc_validated clk)\<rparr>) (devices s)"
  using assms
  by (auto simp: validate_license_def split: option.splits if_splits)

lemma td_days_nonneg: "0 \<le> d \<Longrightarrow> 0 \<le> td_days d"
  by (simp add: td_days_def us_per_day_def pos_imp_zdiv_nonneg_iff)

lemma validate_days_nonneg:
  assumes "validate_license user_id clk s = (Inr res, s')"
    and "vc_days clk \<le> vc_check clk"
    and "vo_days_remaining res = Some n"
  shows "0 \<le> n"
  using assms
  by (auto simp: validate_license_def is_past_def split: option.splits if_splits
      intro!: td_days_nonneg)

text \<open>
  Claim C10: the code does not keep it. The expiry check and \<open>days_remaining\<close> read the clock
  separately. A license expiring at \<open>t0\<close> passes the check two microseconds before \<open>t0\<close>; one
  microsecond after \<open>t0\<close> the handler computes \<open>days_remaining\<close> and returns -1 in a successful
  response. The \<open>days_remaining\<close> property of the License model never returns a negative
  number; the handler does not use it.
\<close>

theorem days_remaining_negative:
  "validate_license ''dev1'' validate_across_expiry store_old =
     (Inr \<lparr>vo_license_status = ''active'', vo_expires_at = Some t0, vo_days_remaining = Some (- 1)\<rparr>,
      store_old\<lparr>devices := [device_1\<lparr>dev_last_validated := Some (t0 - 1)\<rparr>]\<rparr>)"
  by (simp add: validate_license_def store_old_def device_by_device_id_def device_1_def
      license_get_def license_old_def is_past_def validate_across_expiry_def td_days_def
      us_per_day_def)

end
